theory Spec2Isabelle
  imports Main
begin

section \<open>JavaScript values\<close>

text \<open>
  The listing form receives loosely typed data from the remote store, so the values that
  reach the type guards are arbitrary JavaScript values. A \<open>number\<close> is either \<open>NaN\<close> or
  the Number denoted by a decimal literal (\<open>Infinity\<close> included); the rounding of the
  literal to a double is not modelled, so \<open>Num\<close> keeps the literal's text.
  A character is a UTF-16 code unit below 256.
\<close>

datatype number = NaN | Num string

datatype jsval =
    JUndefined
  | JNull
  | JBoolean bool
  | JNumber number
  | JString string
  | JBigInt int
  | JSymbol nat
  | JFunction nat
  | JObject nat

fun typeof :: "jsval \<Rightarrow> string" where
  "typeof JUndefined = ''undefined''"
| "typeof JNull = ''object''"
| "typeof (JBoolean b) = ''boolean''"
| "typeof (JNumber n) = ''number''"
| "typeof (JString s) = ''string''"
| "typeof (JBigInt i) = ''bigint''"
| "typeof (JSymbol k) = ''symbol''"
| "typeof (JFunction k) = ''function''"
| "typeof (JObject k) = ''object''"

section \<open>Enum registry (src/schemas/listing.ts)\<close>

text \<open>
  Each registry is a frozen object literal: an ordered list of key/value pairs whose
  values are strings.
\<close>

type_synonym enum_object = "(string \<times> string) list"

definition YesNoEnum :: enum_object where
  "YesNoEnum = [(''yes'', ''yes''), (''no'', ''no'')]"

definition ConditionEnum :: enum_object where
  "ConditionEnum =
     [(''new'', ''new''), (''excellent'', ''excellent''), (''good'', ''good''),
      (''fair'', ''fair''), (''poor'', ''poor'')]"

definition CertificationEnum :: enum_object where
  "CertificationEnum =
     [(''none'', ''''), (''organic'', ''organic''), (''gap'', ''gap''), (''other'', ''other'')]"

definition PaymentTermsEnum :: enum_object where
  "PaymentTermsEnum =
     [(''none'', ''''), (''advance'', ''advance''), (''partial'', ''partial''),
      (''delivery'', ''delivery''), (''credit'', ''credit'')]"

definition ListingStatusEnum :: enum_object where
  "ListingStatusEnum =
     [(''active'', ''active''), (''sold'', ''sold''), (''expired'', ''expired''),
      (''draft'', ''draft'')]"

definition PriceUnitEnum :: enum_object where
  "PriceUnitEnum = [(''total'', ''total''), (''per_kg'', ''per_kg''), (''per_piece'', ''per_piece'')]"

definition QuantityUnitEnum :: enum_object where
  "QuantityUnitEnum =
     [(''kg'', ''kg''), (''piece'', ''piece''), (''ton'', ''ton''), (''quintal'', ''quintal'')]"

text \<open>\<open>Object.values(E)\<close>: the property values in insertion order.\<close>

definition Object_values :: "enum_object \<Rightarrow> jsval list" where
  "Object_values e = map (\<lambda>kv. JString (snd kv)) e"

text \<open>\<open>E.k\<close>: property access; an absent key reads as \<open>undefined\<close>.\<close>

definition enum_get :: "enum_object \<Rightarrow> string \<Rightarrow> jsval" where
  "enum_get e k = (case map_of e k of Some v \<Rightarrow> JString v | None \<Rightarrow> JUndefined)"

text \<open>
  \<open>Array.prototype.includes\<close> compares with SameValueZero. The guards call it behind a
  \<open>typeof value === 'string'\<close> test on arrays of strings, where SameValueZero is equality
  of the two strings.
\<close>

definition Array_includes :: "jsval list \<Rightarrow> jsval \<Rightarrow> bool" where
  "Array_includes xs v = (v \<in> set xs)"

text \<open>The registry of an attribute, as the set of its permitted strings.\<close>

definition registry :: "enum_object \<Rightarrow> string set" where
  "registry e = snd ` set e"

section \<open>Type guards (src/lib/typeGuards.ts)\<close>

definition isYesNo :: "jsval \<Rightarrow> bool" where
  "isYesNo value = (typeof value = ''string'' \<and> Array_includes (Object_values YesNoEnum) value)"

definition isCertification :: "jsval \<Rightarrow> bool" where
  "isCertification value =
     (typeof value = ''string'' \<and> Array_includes (Object_values CertificationEnum) value)"

definition isCondition :: "jsval \<Rightarrow> bool" where
  "isCondition value =
     (typeof value = ''string'' \<and> Array_includes (Object_values ConditionEnum) value)"

definition isPaymentTerms :: "jsval \<Rightarrow> bool" where
  "isPaymentTerms value =
     (typeof value = ''string'' \<and> Array_includes (Object_values PaymentTermsEnum) value)"

definition isListingStatus :: "jsval \<Rightarrow> bool" where
  "isListingStatus value =
     (typeof value = ''string'' \<and> Array_includes (Object_values ListingStatusEnum) value)"

definition isPriceUnit :: "jsval \<Rightarrow> bool" where
  "isPriceUnit value =
     (typeof value = ''string'' \<and> Array_includes (Object_values PriceUnitEnum) value)"

definition isQuantityUnit :: "jsval \<Rightarrow> bool" where
  "isQuantityUnit value =
     (typeof value = ''string'' \<and> Array_includes (Object_values QuantityUnitEnum) value)"

section \<open>Normalization helpers of the edit page\<close>

definition validatePriceUnit :: "jsval \<Rightarrow> jsval" where
  "validatePriceUnit value = (if isPriceUnit value then value else enum_get PriceUnitEnum ''total'')"

definition validateQuantityUnit :: "jsval \<Rightarrow> jsval" where
  "validateQuantityUnit value =
     (if isQuantityUnit value then value else enum_get QuantityUnitEnum ''kg'')"

definition validateYesNo :: "jsval \<Rightarrow> jsval" where
  "validateYesNo value = (if isYesNo value then value else enum_get YesNoEnum ''no'')"

definition validateCondition :: "jsval \<Rightarrow> jsval" where
  "validateCondition value = (if isCondition value then value else enum_get ConditionEnum ''new'')"

definition validateCertification :: "jsval \<Rightarrow> jsval" where
  "validateCertification value =
     (if isCertification value then value else enum_get CertificationEnum ''none'')"

definition validatePaymentTerms :: "jsval \<Rightarrow> jsval" where
  "validatePaymentTerms value =
     (if isPaymentTerms value then value else enum_get PaymentTermsEnum ''none'')"

definition validateStatus :: "jsval \<Rightarrow> jsval" where
  "validateStatus value =
     (if isListingStatus value then value else enum_get ListingStatusEnum ''active'')"

section \<open>Collaborators\<close>

text \<open>
  The storage hook, the update mutation, the toast and the router are external. A handler
  that awaits one of them is modelled with the way the promise settles as an argument,
  and every call it makes is appended to a log, in order.
\<close>

record File =
  file_name :: string
  file_type :: string
  file_size :: nat

datatype 'a outcome = Resolved 'a | Rejected

datatype 'p call =
    UploadImages "File list" string
  | DeleteImage string
  | UpdateListing string 'p
  | Toast string string
  | Navigate string

text \<open>\<open>x || ''\<close> on a nullable string: every falsy value gives the empty string.\<close>

definition or_empty :: "string option \<Rightarrow> string" where
  "or_empty x = (case x of None \<Rightarrow> '''' | Some s \<Rightarrow> if s = '''' then '''' else s)"

text \<open>
  \<open>n?.toString() || ''\<close> on a nullable number. \<open>Number.prototype.toString\<close> prints the
  shortest decimal that reads back as the same double; it is the argument \<open>toString\<close>.
\<close>

definition num_text :: "(number \<Rightarrow> string) \<Rightarrow> number option \<Rightarrow> string" where
  "num_text toString n = or_empty (map_option toString n)"

text \<open>\<open>!id\<close> on the route parameter: undefined and the empty string are falsy.\<close>

definition missing :: "string option \<Rightarrow> bool" where
  "missing x = (case x of None \<Rightarrow> True | Some s \<Rightarrow> s = '''')"

section \<open>The edit page with all seven enum attributes (src/unnamed/part_000)\<close>

text \<open>
  The fetched row. The interface declares every field as present, but the row comes from
  the remote store unchecked: text, numbers and the image array may be null
  (\<open>None\<close>), and the enum columns may hold any value.
\<close>

record ListingWithDetails_part =
  pr_title :: "string option"
  pr_description :: "string option"
  pr_price :: "number option"
  pr_price_unit :: jsval
  pr_quantity :: "number option"
  pr_quantity_unit :: jsval
  pr_category_id :: string
  pr_location_city :: "string option"
  pr_location_state :: "string option"
  pr_location_country :: "string option"
  pr_organic :: jsval
  pr_condition :: jsval
  pr_certification :: jsval
  pr_payment_terms :: jsval
  pr_status :: jsval
  pr_images :: "string list option"

record ListingFormData_part =
  pf_title :: string
  pf_description :: string
  pf_price :: string
  pf_price_unit :: jsval
  pf_quantity :: string
  pf_quantity_unit :: jsval
  pf_category_id :: string
  pf_location_city :: string
  pf_location_state :: string
  pf_location_country :: string
  pf_organic :: jsval
  pf_condition :: jsval
  pf_certification :: jsval
  pf_payment_terms :: jsval
  pf_status :: jsval

text \<open>The update payload: \<open>{...data, updated_at, images}\<close>.\<close>

record payload_part =
  pp_data :: ListingFormData_part
  pp_updated_at :: string
  pp_images :: "string list"

text \<open>
  The component: the route parameter, the signed-in user's id, the form values (none
  before the first reset, the form having no default values), the \<open>images\<close> and
  \<open>isUploading\<close> states, the number of update calls not yet settled, and the log of calls.
\<close>

record EditListing_part =
  p_id :: "string option"
  p_user :: "string option"
  p_form :: "ListingFormData_part option"
  p_images :: "string list"
  p_isUploading :: bool
  p_inflight :: nat
  p_log :: "payload_part call list"

definition initial_part :: "string option \<Rightarrow> string option \<Rightarrow> EditListing_part" where
  "initial_part ident user =
     \<lparr>p_id = ident, p_user = user, p_form = None, p_images = [], p_isUploading = False,
      p_inflight = 0, p_log = []\<rparr>"

text \<open>The values handed to \<open>reset\<close> when the query delivers \<open>listing\<close>.\<close>

definition normalize_part ::
  "(number \<Rightarrow> string) \<Rightarrow> ListingWithDetails_part \<Rightarrow> ListingFormData_part" where
  "normalize_part toString listing =
     \<lparr>pf_title = or_empty (pr_title listing),
      pf_description = or_empty (pr_description listing),
      pf_price = num_text toString (pr_price listing),
      pf_price_unit = validatePriceUnit (pr_price_unit listing),
      pf_quantity = num_text toString (pr_quantity listing),
      pf_quantity_unit = validateQuantityUnit (pr_quantity_unit listing),
      pf_category_id = pr_category_id listing,
      pf_location_city = or_empty (pr_location_city listing),
      pf_location_state = or_empty (pr_location_state listing),
      pf_location_country = or_empty (pr_location_country listing),
      pf_organic = validateYesNo (pr_organic listing),
      pf_condition = validateCondition (pr_condition listing),
      pf_certification = validateCertification (pr_certification listing),
      pf_payment_terms = validatePaymentTerms (pr_payment_terms listing),
      pf_status = validateStatus (pr_status listing)\<rparr>"

text \<open>
  The effect itself: nothing while \<open>listing\<close> is undefined; otherwise the form is reset
  and, if the row has an image array, \<open>images\<close> is set to it.
\<close>

definition reset_effect_part ::
  "(number \<Rightarrow> string) \<Rightarrow> ListingWithDetails_part option \<Rightarrow> EditListing_part \<Rightarrow> EditListing_part" where
  "reset_effect_part toString listing st =
     (case listing of
        None \<Rightarrow> st
      | Some l \<Rightarrow>
          st\<lparr>p_form := Some (normalize_part toString l),
             p_images := (case pr_images l of None \<Rightarrow> p_images st | Some imgs \<Rightarrow> imgs)\<rparr>)"

definition MAX_FILE_SIZE :: nat where
  "MAX_FILE_SIZE = 5 * 1024 * 1024"

text \<open>
  The upload button of this page is the \<open>ImageUpload\<close> component
  (src/components/ImageUpload.tsx), which hands a chosen file to \<open>onFileSelect\<close> only
  if it is not larger than \<open>maxSize\<close> and its type is one of the accepted ones (the page
  passes the list joined with commas, the component splits it again).
\<close>

definition ACCEPTED_IMAGE_TYPES_part :: "string list" where
  "ACCEPTED_IMAGE_TYPES_part = [''image/jpeg'', ''image/png'', ''image/webp'']"

definition handleFileChange :: "string list \<Rightarrow> nat \<Rightarrow> File \<Rightarrow> bool" where
  "handleFileChange accept maxSize f =
     (if file_size f > maxSize then False
      else if file_type f \<notin> set accept then False
      else True)"

text \<open>
  \<open>handleImageUpload\<close>, in its two halves: up to the awaited \<open>uploadImages\<close> call, and
  from the moment the promise settles. The second half appends to the image list as it
  is then (\<open>setImages(prev => [...prev, urls[0]])\<close>).
\<close>

definition handleImageUpload_part_begin :: "File \<Rightarrow> EditListing_part \<Rightarrow> EditListing_part" where
  "handleImageUpload_part_begin f st =
     (case p_user st of
        None \<Rightarrow> st
      | Some uid \<Rightarrow>
          if missing (p_id st) then st
          else st\<lparr>p_isUploading := True, p_log := p_log st @ [UploadImages [f] uid]\<rparr>)"

definition handleImageUpload_part_settle ::
  "string list outcome \<Rightarrow> EditListing_part \<Rightarrow> EditListing_part" where
  "handleImageUpload_part_settle res st =
     (case res of
        Resolved urls \<Rightarrow>
          (case urls of
             [] \<Rightarrow> st\<lparr>p_isUploading := False\<rparr>
           | u # _ \<Rightarrow> st\<lparr>p_images := p_images st @ [u], p_isUploading := False\<rparr>)
      | Rejected \<Rightarrow>
          st\<lparr>p_log := p_log st @ [Toast ''Error'' ''Failed to upload image''],
             p_isUploading := False\<rparr>)"

definition handleImageUpload_part ::
  "File \<Rightarrow> string list outcome \<Rightarrow> EditListing_part \<Rightarrow> EditListing_part" where
  "handleImageUpload_part f res st =
     (if missing (p_id st) \<or> p_user st = None then st
      else handleImageUpload_part_settle res (handleImageUpload_part_begin f st))"

text \<open>\<open>handleImageDelete\<close>: the object is deleted first, the list is filtered after.\<close>

definition handleImageDelete_part ::
  "string \<Rightarrow> unit outcome \<Rightarrow> EditListing_part \<Rightarrow> EditListing_part" where
  "handleImageDelete_part url res st =
     (let st1 = st\<lparr>p_log := p_log st @ [DeleteImage url]\<rparr> in
      case res of
        Resolved _ \<Rightarrow> st1\<lparr>p_images := filter (\<lambda>img. img \<noteq> url) (p_images st1)\<rparr>
      | Rejected \<Rightarrow> st1\<lparr>p_log := p_log st1 @ [Toast ''Error'' ''Failed to delete image'']\<rparr>)"

text \<open>
  \<open>onSubmit\<close>, in its two halves. \<open>now\<close> is \<open>new Date().toISOString()\<close>. The submit button
  and the upload button of this page are disabled while an image upload is running, and
  only then.
\<close>

definition onSubmit_part_begin ::
  "ListingFormData_part \<Rightarrow> string \<Rightarrow> EditListing_part \<Rightarrow> EditListing_part" where
  "onSubmit_part_begin data now st =
     (case p_id st of
        None \<Rightarrow> st
      | Some ident \<Rightarrow>
          if ident = '''' \<or> p_user st = None then st
          else st\<lparr>p_log := p_log st @
                    [UpdateListing ident
                       \<lparr>pp_data = data, pp_updated_at = now, pp_images = p_images st\<rparr>],
                  p_inflight := p_inflight st + 1\<rparr>)"

definition onSubmit_part_settle :: "unit outcome \<Rightarrow> EditListing_part \<Rightarrow> EditListing_part" where
  "onSubmit_part_settle res st =
     (let st1 = st\<lparr>p_inflight := p_inflight st - 1\<rparr> in
      case res of
        Resolved _ \<Rightarrow>
          st1\<lparr>p_log := p_log st1 @
                 [Toast ''Success'' ''Listing updated successfully'', Navigate ''/listings'']\<rparr>
      | Rejected \<Rightarrow> st1\<lparr>p_log := p_log st1 @ [Toast ''Error'' ''Failed to update listing'']\<rparr>)"

definition submit_disabled_part :: "EditListing_part \<Rightarrow> bool" where
  "submit_disabled_part st = p_isUploading st"

definition upload_disabled_part :: "EditListing_part \<Rightarrow> bool" where
  "upload_disabled_part st = p_isUploading st"

section \<open>\<open>parseFloat\<close>\<close>

text \<open>
  \<open>parseFloat\<close> skips leading white space, takes the longest prefix that is a
  StrDecimalLiteral and returns its value, or \<open>NaN\<close> when no prefix is one.
\<close>

definition StrWhiteSpaceChar :: "char \<Rightarrow> bool" where
  "StrWhiteSpaceChar c =
     (c \<in> set [CHR 0x09, CHR 0x0A, CHR 0x0B, CHR 0x0C, CHR 0x0D, CHR 0x20, CHR 0xA0])"

definition DecimalDigit :: "char \<Rightarrow> bool" where
  "DecimalDigit c = (c \<in> set ''0123456789'')"

text \<open>The ExponentPart at the head of a string, empty when there is none.\<close>

definition ExponentPart :: "string \<Rightarrow> string" where
  "ExponentPart s =
     (case s of
        [] \<Rightarrow> []
      | e # r \<Rightarrow>
          if e \<in> set ''eE'' then
            (case r of
               [] \<Rightarrow> []
             | c # r2 \<Rightarrow>
                 if c \<in> set ''+-'' then
                   (if takeWhile DecimalDigit r2 = [] then []
                    else e # c # takeWhile DecimalDigit r2)
                 else
                   (if takeWhile DecimalDigit r = [] then []
                    else e # takeWhile DecimalDigit r))
          else [])"

definition StrUnsignedDecimalLiteral :: "string \<Rightarrow> string option" where
  "StrUnsignedDecimalLiteral s =
     (if take 8 s = ''Infinity'' then Some ''Infinity''
      else
        (let ds = takeWhile DecimalDigit s; r = dropWhile DecimalDigit s in
         case r of
           [] \<Rightarrow> if ds = [] then None else Some ds
         | c # r1 \<Rightarrow>
             if c = CHR ''.'' then
               (let fs = takeWhile DecimalDigit r1; r2 = dropWhile DecimalDigit r1 in
                if ds = [] \<and> fs = [] then None
                else Some (ds @ [c] @ fs @ ExponentPart r2))
             else if ds = [] then None
             else Some (ds @ ExponentPart r)))"

definition StrDecimalLiteral :: "string \<Rightarrow> string option" where
  "StrDecimalLiteral s =
     (case s of
        [] \<Rightarrow> None
      | c # r \<Rightarrow>
          if c \<in> set ''+-'' then map_option ((#) c) (StrUnsignedDecimalLiteral r)
          else StrUnsignedDecimalLiteral s)"

definition parseFloat :: "string \<Rightarrow> number" where
  "parseFloat s =
     (case StrDecimalLiteral (dropWhile StrWhiteSpaceChar s) of
        None \<Rightarrow> NaN
      | Some lit \<Rightarrow> Num lit)"

section \<open>The edit page (src/pages/EditListing.tsx)\<close>

record ListingWithDetails =
  er_id :: string
  er_title :: string
  er_description :: string
  er_price :: "number option"
  er_quantity :: "number option"
  er_category_id :: string
  er_location_city :: string
  er_location_province :: string
  er_location_address :: "string option"
  er_contact_name :: "string option"
  er_contact_phone :: "string option"
  er_contact_email :: "string option"
  er_status :: jsval
  er_images :: "string list option"
  er_user_id :: string

text \<open>The form values; an optional field that is \<open>undefined\<close> is \<open>None\<close>.\<close>

record ListingFormData =
  ef_title :: string
  ef_description :: string
  ef_price :: string
  ef_quantity :: string
  ef_category_id :: string
  ef_location_city :: string
  ef_location_province :: string
  ef_location_address :: "string option"
  ef_contact_name :: "string option"
  ef_contact_phone :: "string option"
  ef_contact_email :: "string option"
  ef_status :: jsval
  ef_images :: "string list"

text \<open>The update payload \<open>listingData\<close>; \<open>null\<close> is \<open>None\<close>.\<close>

record listingData =
  ld_title :: string
  ld_description :: string
  ld_price :: number
  ld_quantity :: number
  ld_category_id :: string
  ld_location_city :: string
  ld_location_province :: string
  ld_location_address :: "string option"
  ld_contact_name :: "string option"
  ld_contact_phone :: "string option"
  ld_contact_email :: "string option"
  ld_status :: jsval
  ld_images :: "string list"

text \<open>\<open>x || null\<close> on an optional string.\<close>

definition or_null :: "string option \<Rightarrow> string option" where
  "or_null x = (case x of None \<Rightarrow> None | Some s \<Rightarrow> if s = '''' then None else Some s)"

definition ACCEPTED_IMAGE_TYPES :: "string list" where
  "ACCEPTED_IMAGE_TYPES = [''image/jpeg'', ''image/jpg'', ''image/png'', ''image/webp'']"

text \<open>
  The component: route parameter, user id, form values, the \<open>selectedFiles\<close> and
  \<open>isSubmitting\<close> states, the numbers of upload and update calls not yet settled, and the
  log of calls.
\<close>

record EditListing =
  e_id :: "string option"
  e_user :: "string option"
  e_form :: ListingFormData
  e_selectedFiles :: "File list"
  e_isSubmitting :: bool
  e_uploads :: nat
  e_inflight :: nat
  e_log :: "listingData call list"

definition defaultValues :: ListingFormData where
  "defaultValues =
     \<lparr>ef_title = '''', ef_description = '''', ef_price = ''0'', ef_quantity = ''0'',
      ef_category_id = '''', ef_location_city = '''', ef_location_province = '''',
      ef_location_address = Some '''', ef_contact_name = Some '''',
      ef_contact_phone = Some '''', ef_contact_email = Some '''',
      ef_status = enum_get ListingStatusEnum ''active'', ef_images = []\<rparr>"

definition initial :: "string option \<Rightarrow> string option \<Rightarrow> EditListing" where
  "initial ident user =
     \<lparr>e_id = ident, e_user = user, e_form = defaultValues, e_selectedFiles = [],
      e_isSubmitting = False, e_uploads = 0, e_inflight = 0, e_log = []\<rparr>"

text \<open>
  The reset effect. The argument of \<open>form.reset\<close> is built field by field, inside a
  \<open>try\<close>: \<open>listing.price.toString()\<close> and \<open>listing.quantity.toString()\<close> throw a TypeError
  on null, and \<open>validateStatus(listing.status)\<close> throws a ReferenceError, since this page
  neither defines nor imports \<open>validateStatus\<close> (it imports \<open>isListingStatus\<close> only). So no
  row gives a value to reset the form with; the \<open>catch\<close> shows a toast, and the form and
  \<open>selectedFiles\<close> stay as they were.
\<close>

datatype js_error = TypeError | ReferenceError

definition reset_values :: "ListingWithDetails \<Rightarrow> js_error + ListingFormData" where
  "reset_values l =
     (case er_price l of
        None \<Rightarrow> Inl TypeError
      | Some p \<Rightarrow>
          (case er_quantity l of
             None \<Rightarrow> Inl TypeError
           | Some q \<Rightarrow> Inl ReferenceError))"

definition reset_effect :: "ListingWithDetails option \<Rightarrow> EditListing \<Rightarrow> EditListing" where
  "reset_effect listing st =
     (case listing of
        None \<Rightarrow> st
      | Some l \<Rightarrow>
          (case reset_values l of
             Inr d \<Rightarrow> st\<lparr>e_form := d, e_selectedFiles := []\<rparr>
           | Inl e \<Rightarrow>
               st\<lparr>e_log := e_log st @
                      [Toast ''Error'' ''Failed to load listing data into form'']\<rparr>))"

text \<open>
  \<open>handleImageUpload\<close>: the checks in front of the upload call, the half up to the awaited
  call, and the half that runs when the promise settles, which appends to the form's
  image list as it is then.
\<close>

definition upload_starts :: "File \<Rightarrow> EditListing \<Rightarrow> bool" where
  "upload_starts f st =
     (\<not> missing (e_id st) \<and> e_user st \<noteq> None \<and>
      file_type f \<in> set ACCEPTED_IMAGE_TYPES \<and> file_size f \<le> MAX_FILE_SIZE)"

definition handleImageUpload_begin :: "File \<Rightarrow> EditListing \<Rightarrow> EditListing" where
  "handleImageUpload_begin f st =
     (case e_user st of
        None \<Rightarrow> st
      | Some uid \<Rightarrow>
          if missing (e_id st) then st
          else if file_type f \<notin> set ACCEPTED_IMAGE_TYPES then
            st\<lparr>e_log := e_log st @
                 [Toast ''Invalid file type''
                    (file_name f @
                     '' is not a supported image type. Please use JPEG, PNG, or WebP images.'')]\<rparr>
          else if \<not> file_size f \<le> MAX_FILE_SIZE then
            st\<lparr>e_log := e_log st @
                 [Toast ''File too large'' (file_name f @ '' exceeds the 5MB size limit.'')]\<rparr>
          else st\<lparr>e_log := e_log st @ [UploadImages [f] uid], e_uploads := e_uploads st + 1\<rparr>)"

definition handleImageUpload_settle :: "string list outcome \<Rightarrow> EditListing \<Rightarrow> EditListing" where
  "handleImageUpload_settle res st =
     (let st1 = st\<lparr>e_uploads := e_uploads st - 1\<rparr> in
      case res of
        Resolved urls \<Rightarrow>
          (case urls of
             [] \<Rightarrow> st1
           | u # _ \<Rightarrow> st1\<lparr>e_form := (e_form st1)\<lparr>ef_images := ef_images (e_form st1) @ [u]\<rparr>\<rparr>)
      | Rejected \<Rightarrow> st1\<lparr>e_log := e_log st1 @ [Toast ''Error'' ''Failed to upload image'']\<rparr>)"

definition handleImageUpload :: "File \<Rightarrow> string list outcome \<Rightarrow> EditListing \<Rightarrow> EditListing" where
  "handleImageUpload f res st =
     (if upload_starts f st then handleImageUpload_settle res (handleImageUpload_begin f st)
      else handleImageUpload_begin f st)"

definition handleImageDelete :: "string \<Rightarrow> unit outcome \<Rightarrow> EditListing \<Rightarrow> EditListing" where
  "handleImageDelete url res st =
     (let st1 = st\<lparr>e_log := e_log st @ [DeleteImage url]\<rparr> in
      case res of
        Resolved _ \<Rightarrow>
          st1\<lparr>e_form := (e_form st1)\<lparr>ef_images := filter (\<lambda>img. img \<noteq> url) (ef_images (e_form st1))\<rparr>\<rparr>
      | Rejected \<Rightarrow> st1\<lparr>e_log := e_log st1 @ [Toast ''Error'' ''Failed to delete image'']\<rparr>)"

text \<open>\<open>onSubmit\<close>: the payload, the half up to the awaited update, and the rest.\<close>

definition build_listingData :: "ListingFormData \<Rightarrow> listingData" where
  "build_listingData data =
     \<lparr>ld_title = ef_title data,
      ld_description = ef_description data,
      ld_price = parseFloat (ef_price data),
      ld_quantity = parseFloat (ef_quantity data),
      ld_category_id = ef_category_id data,
      ld_location_city = ef_location_city data,
      ld_location_province = ef_location_province data,
      ld_location_address = or_null (ef_location_address data),
      ld_contact_name = or_null (ef_contact_name data),
      ld_contact_phone = or_null (ef_contact_phone data),
      ld_contact_email = or_null (ef_contact_email data),
      ld_status = ef_status data,
      ld_images = ef_images data\<rparr>"

definition onSubmit_begin ::
  "ListingFormData \<Rightarrow> ListingWithDetails option \<Rightarrow> EditListing \<Rightarrow> EditListing" where
  "onSubmit_begin data listing st =
     (case listing of
        None \<Rightarrow> st\<lparr>e_log := e_log st @ [Toast ''Error'' ''Listing not found'']\<rparr>
      | Some l \<Rightarrow>
          st\<lparr>e_isSubmitting := True,
             e_log := e_log st @ [UpdateListing (er_id l) (build_listingData data)],
             e_inflight := e_inflight st + 1\<rparr>)"

definition onSubmit_settle :: "unit outcome \<Rightarrow> EditListing \<Rightarrow> EditListing" where
  "onSubmit_settle res st =
     (let st1 =
        (case res of
           Resolved _ \<Rightarrow>
             st\<lparr>e_log := e_log st @
                  [Toast ''Success'' ''Listing updated successfully'', Navigate ''/listings'']\<rparr>
         | Rejected \<Rightarrow> st\<lparr>e_log := e_log st @ [Toast ''Error'' ''Failed to update listing'']\<rparr>)
      in st1\<lparr>e_isSubmitting := False, e_inflight := e_inflight st1 - 1\<rparr>)"

definition onSubmit ::
  "ListingFormData \<Rightarrow> ListingWithDetails option \<Rightarrow> unit outcome \<Rightarrow> EditListing \<Rightarrow> EditListing" where
  "onSubmit data listing res st =
     (case listing of
        None \<Rightarrow> onSubmit_begin data listing st
      | Some l \<Rightarrow> onSubmit_settle res (onSubmit_begin data listing st))"

text \<open>
  What the page renders from a state: the submit button's \<open>disabled\<close>, and the file
  input. Neither handler tests them: they take effect only through the rendered page,
  which is the one of the last render when an event is dispatched.
\<close>

definition submit_disabled :: "EditListing \<Rightarrow> bool" where
  "submit_disabled st = e_isSubmitting st"

definition add_photo_rendered :: "EditListing \<Rightarrow> bool" where
  "add_photo_rendered st = (length (ef_images (e_form st)) < 5)"

section \<open>Validation schema (src/schemas/listing.ts)\<close>

text \<open>
  The schema is a value built from the validation library's combinators; it is kept as
  data, and \<open>parse\<close> gives the combinators their meaning. A string check that fails
  leaves the result dirty (the value had the right type); a type, enum or literal
  mismatch aborts. A union takes the first alternative that is valid, else the first
  that is dirty, else reports \<open>invalid_union\<close>. An issue carries its code and the
  message the schema gives for it, if any. The library's email pattern is the
  argument \<open>email\<close>.
\<close>

datatype issue_code =
  invalid_type | too_small | invalid_string | invalid_enum_value | invalid_literal | invalid_union

datatype issue = Issue issue_code "string option"

datatype verdict = Valid | Dirty "issue list" | Aborted "issue list"

datatype string_check = Min nat string | Email string

datatype zod =
    ZString "string_check list"
  | ZNativeEnum enum_object
  | ZLiteral jsval
  | ZOptional zod
  | ZDefault zod jsval
  | ZOr zod zod

fun run_check :: "(string \<Rightarrow> bool) \<Rightarrow> string \<Rightarrow> string_check \<Rightarrow> issue list" where
  "run_check email s (Min n msg) = (if length s < n then [Issue too_small (Some msg)] else [])"
| "run_check email s (Email msg) = (if email s then [] else [Issue invalid_string (Some msg)])"

fun parse :: "(string \<Rightarrow> bool) \<Rightarrow> zod \<Rightarrow> jsval \<Rightarrow> verdict" where
  "parse email (ZString checks) v =
     (case v of
        JString s \<Rightarrow>
          (case concat (map (run_check email s) checks) of
             [] \<Rightarrow> Valid
           | i # is \<Rightarrow> Dirty (i # is))
      | _ \<Rightarrow> Aborted [Issue invalid_type None])"
| "parse email (ZNativeEnum e) v =
     (if (typeof v \<noteq> ''string'' \<and> typeof v \<noteq> ''number'') \<or> v = JNumber NaN
      then Aborted [Issue invalid_type None]
      else if Array_includes (Object_values e) v then Valid
      else Aborted [Issue invalid_enum_value None])"
| "parse email (ZLiteral l) v = (if v = l then Valid else Aborted [Issue invalid_literal None])"
| "parse email (ZOptional t) v = (if v = JUndefined then Valid else parse email t v)"
| "parse email (ZDefault t d) v = parse email t (if v = JUndefined then d else v)"
| "parse email (ZOr a b) v =
     (case parse email a v of
        Valid \<Rightarrow> Valid
      | Dirty is \<Rightarrow> (case parse email b v of Valid \<Rightarrow> Valid | _ \<Rightarrow> Dirty is)
      | Aborted is \<Rightarrow>
          (case parse email b v of
             Valid \<Rightarrow> Valid
           | Dirty js \<Rightarrow> Dirty js
           | Aborted js \<Rightarrow> Aborted [Issue invalid_union None]))"

fun issues_of :: "verdict \<Rightarrow> issue list" where
  "issues_of Valid = []"
| "issues_of (Dirty is) = is"
| "issues_of (Aborted is) = is"

definition listingSchema :: "(string \<times> zod) list" where
  "listingSchema =
     [(''title'', ZString [Min 1 ''Title is required'']),
      (''description'', ZString [Min 1 ''Description is required'']),
      (''price'', ZString [Min 1 ''Price is required'']),
      (''price_unit'', ZDefault (ZNativeEnum PriceUnitEnum) (enum_get PriceUnitEnum ''total'')),
      (''category_id'', ZString [Min 1 ''Category is required'']),
      (''location_city'', ZString [Min 1 ''City is required'']),
      (''location_province'', ZOptional (ZString [])),
      (''location_address'', ZOptional (ZString [])),
      (''quantity'', ZString [Min 1 ''Quantity is required'']),
      (''quantity_unit'', ZDefault (ZNativeEnum QuantityUnitEnum) (enum_get QuantityUnitEnum ''kg'')),
      (''harvest_date'', ZOptional (ZString [])),
      (''organic'', ZDefault (ZNativeEnum YesNoEnum) (enum_get YesNoEnum ''no'')),
      (''certification'',
         ZDefault (ZNativeEnum CertificationEnum) (enum_get CertificationEnum ''none'')),
      (''negotiable'', ZDefault (ZNativeEnum YesNoEnum) (enum_get YesNoEnum ''no'')),
      (''condition'', ZDefault (ZNativeEnum ConditionEnum) (enum_get ConditionEnum ''new'')),
      (''contact_name'', ZOptional (ZString [])),
      (''contact_phone'', ZOptional (ZString [])),
      (''contact_email'',
         ZOr (ZOptional (ZString [Email ''Invalid email address''])) (ZLiteral (JString ''''))),
      (''delivery_available'', ZDefault (ZNativeEnum YesNoEnum) (enum_get YesNoEnum ''no'')),
      (''min_order_quantity'', ZOptional (ZString [])),
      (''payment_terms'',
         ZDefault (ZNativeEnum PaymentTermsEnum) (enum_get PaymentTermsEnum ''none'')),
      (''status'', ZDefault (ZNativeEnum ListingStatusEnum) (enum_get ListingStatusEnum ''active''))]"

text \<open>
  A candidate is an object: a property that is absent reads as \<open>undefined\<close>. Parsing an
  object parses every key of the shape and collects the issues under the key's name;
  the candidate is accepted when there is none. Keys outside the shape are not looked at.
\<close>

type_synonym object = "string \<Rightarrow> jsval"

definition object_of :: "(string \<times> jsval) list \<Rightarrow> object" where
  "object_of kvs k = (case map_of kvs k of Some v \<Rightarrow> v | None \<Rightarrow> JUndefined)"

definition field_issues :: "(string \<Rightarrow> bool) \<Rightarrow> object \<Rightarrow> string \<times> zod \<Rightarrow> (string \<times> issue) list" where
  "field_issues email obj kt = map (Pair (fst kt)) (issues_of (parse email (snd kt) (obj (fst kt))))"

definition safeParse :: "(string \<Rightarrow> bool) \<Rightarrow> (string \<times> zod) list \<Rightarrow> object \<Rightarrow> (string \<times> issue) list" where
  "safeParse email shape obj = concat (map (field_issues email obj) shape)"

text \<open>The errors the validation result holds for one field.\<close>

definition errors_for :: "string \<Rightarrow> (string \<times> issue) list \<Rightarrow> issue list" where
  "errors_for k res = map snd (filter (\<lambda>ki. fst ki = k) res)"

text \<open>The form values of the edit page as the object handed to the schema.\<close>

definition optional_string :: "string option \<Rightarrow> jsval" where
  "optional_string x = (case x of None \<Rightarrow> JUndefined | Some s \<Rightarrow> JString s)"

definition form_object :: "ListingFormData \<Rightarrow> object" where
  "form_object d =
     object_of
       [(''title'', JString (ef_title d)),
        (''description'', JString (ef_description d)),
        (''price'', JString (ef_price d)),
        (''quantity'', JString (ef_quantity d)),
        (''category_id'', JString (ef_category_id d)),
        (''location_city'', JString (ef_location_city d)),
        (''location_province'', JString (ef_location_province d)),
        (''location_address'', optional_string (ef_location_address d)),
        (''contact_name'', optional_string (ef_contact_name d)),
        (''contact_phone'', optional_string (ef_contact_phone d)),
        (''contact_email'', optional_string (ef_contact_email d)),
        (''status'', ef_status d)]"

section \<open>Notions the properties are stated with\<close>

text \<open>\<open>String.prototype.trim\<close>: white space removed at both ends.\<close>

definition trim :: "string \<Rightarrow> string" where
  "trim s = rev (dropWhile StrWhiteSpaceChar (rev (dropWhile StrWhiteSpaceChar s)))"

text \<open>
  A type guard is right for a registry when it accepts every member, rejects every other
  string, and rejects whatever is not a string.
\<close>

definition guard_correct :: "enum_object \<Rightarrow> (jsval \<Rightarrow> bool) \<Rightarrow> bool" where
  "guard_correct e g =
     ((\<forall>v \<in> registry e. g (JString v)) \<and>
      (\<forall>s. s \<notin> registry e \<longrightarrow> \<not> g (JString s)) \<and>
      (\<forall>x. typeof x \<noteq> ''string'' \<longrightarrow> \<not> g x))"

text \<open>
  A helper repairs towards a registry when its result is always a member, and is its
  argument if the guard accepts the argument and the default \<open>d\<close> otherwise.
\<close>

definition repairs :: "enum_object \<Rightarrow> (jsval \<Rightarrow> bool) \<Rightarrow> string \<Rightarrow> (jsval \<Rightarrow> jsval) \<Rightarrow> bool" where
  "repairs e g d f =
     (d \<in> registry e \<and>
      (\<forall>x. (\<exists>s \<in> registry e. f x = JString s) \<and> f x = (if g x then x else JString d)))"

text \<open>A helper is the identity on the registry's members and idempotent everywhere.\<close>

definition identity_on_members :: "enum_object \<Rightarrow> (jsval \<Rightarrow> jsval) \<Rightarrow> bool" where
  "identity_on_members e f =
     ((\<forall>v \<in> registry e. f (JString v) = JString v) \<and> (\<forall>u. f (f u) = f u))"

text \<open>A value is a member of a registry.\<close>

definition member_of :: "enum_object \<Rightarrow> jsval \<Rightarrow> bool" where
  "member_of e x = (\<exists>s \<in> registry e. x = JString s)"

text \<open>Every enum field of a draft holds a member of its registry.\<close>

definition valid_enums :: "ListingFormData_part \<Rightarrow> bool" where
  "valid_enums d =
     (member_of PriceUnitEnum (pf_price_unit d) \<and>
      member_of QuantityUnitEnum (pf_quantity_unit d) \<and>
      member_of YesNoEnum (pf_organic d) \<and>
      member_of ConditionEnum (pf_condition d) \<and>
      member_of CertificationEnum (pf_certification d) \<and>
      member_of PaymentTermsEnum (pf_payment_terms d) \<and>
      member_of ListingStatusEnum (pf_status d))"

text \<open>
  What a required text field yields: no issue for a string that is not empty, the
  field's own message for the empty string, a type issue for anything else.
\<close>

definition required_outcome :: "string \<Rightarrow> jsval \<Rightarrow> issue list" where
  "required_outcome msg v =
     (case v of
        JString s \<Rightarrow> if s = '''' then [Issue too_small (Some msg)] else []
      | _ \<Rightarrow> [Issue invalid_type None])"

section \<open>Example values\<close>

text \<open>A number printed as the literal that denotes it.\<close>

definition literal_text :: "number \<Rightarrow> string" where
  "literal_text n = (case n of NaN \<Rightarrow> ''NaN'' | Num lit \<Rightarrow> lit)"

definition sold_out_row :: ListingWithDetails_part where
  "sold_out_row =
     \<lparr>pr_title = Some ''Wheat'', pr_description = None, pr_price = None,
      pr_price_unit = JNull, pr_quantity = Some (Num ''3''), pr_quantity_unit = JString ''kg'',
      pr_category_id = ''c1'', pr_location_city = Some ''Lahore'', pr_location_state = None,
      pr_location_country = None, pr_organic = JNull, pr_condition = JNull,
      pr_certification = JNull, pr_payment_terms = JNull, pr_status = JString ''SOLD_OUT'',
      pr_images = None\<rparr>"

definition wheat_row :: ListingWithDetails where
  "wheat_row =
     \<lparr>er_id = ''7'', er_title = ''Wheat'', er_description = ''Fresh wheat'',
      er_price = Some (Num ''10''), er_quantity = Some (Num ''3''), er_category_id = ''c1'',
      er_location_city = ''Lahore'', er_location_province = ''Punjab'',
      er_location_address = None, er_contact_name = None, er_contact_phone = None,
      er_contact_email = None, er_status = JString ''active'',
      er_images = Some [''a.png'', ''b.png'', ''c.png'', ''d.png''], er_user_id = ''u1''\<rparr>"

definition draft_abc :: ListingFormData where
  "draft_abc =
     defaultValues\<lparr>ef_title := ''Wheat'', ef_description := ''Fresh wheat'', ef_price := ''abc'',
       ef_quantity := ''3'', ef_category_id := ''c1'', ef_location_city := ''Lahore''\<rparr>"

definition draft_12_5 :: ListingFormData where
  "draft_12_5 = draft_abc\<lparr>ef_price := ''12.5''\<rparr>"

definition draft_blank_title :: ListingFormData where
  "draft_blank_title = draft_12_5\<lparr>ef_title := '' ''\<rparr>"

definition draft_empty_title :: ListingFormData where
  "draft_empty_title = draft_12_5\<lparr>ef_title := ''''\<rparr>"

definition three_images :: EditListing where
  "three_images =
     (initial (Some ''7'') (Some ''u1''))
       \<lparr>e_form := defaultValues\<lparr>ef_images := [''a.png'', ''b.png'', ''c.png'']\<rparr>\<rparr>"

definition png :: "string \<Rightarrow> File" where
  "png n = \<lparr>file_name = n, file_type = ''image/png'', file_size = 2048\<rparr>"

text \<open>The page after four uploads, one after the other.\<close>

definition four_uploaded :: EditListing where
  "four_uploaded =
     handleImageUpload (png ''d.png'') (Resolved [''d-url''])
       (handleImageUpload (png ''c.png'') (Resolved [''c-url''])
          (handleImageUpload (png ''b.png'') (Resolved [''b-url''])
             (handleImageUpload (png ''a.png'') (Resolved [''a-url''])
                (initial (Some ''7'') (Some ''u1'')))))"

text \<open>The row \<open>{status: "SOLD_OUT", price: null, images: null}\<close> as src/pages/EditListing.tsx
  fetches it, and a row with two images for the other page.\<close>

definition sold_out_listing :: ListingWithDetails where
  "sold_out_listing =
     \<lparr>er_id = ''7'', er_title = ''Wheat'', er_description = ''Fresh wheat'',
      er_price = None, er_quantity = Some (Num ''3''), er_category_id = ''c1'',
      er_location_city = ''Lahore'', er_location_province = ''Punjab'',
      er_location_address = None, er_contact_name = None, er_contact_phone = None,
      er_contact_email = None, er_status = JString ''SOLD_OUT'',
      er_images = None, er_user_id = ''u1''\<rparr>"

definition two_image_row :: ListingWithDetails_part where
  "two_image_row = sold_out_row\<lparr>pr_status := JString ''active'', pr_price := Some (Num ''10''),
     pr_images := Some [''a.png'', ''b.png'']\<rparr>"

definition five_part :: EditListing_part where
  "five_part =
     (initial_part (Some ''7'') (Some ''u1''))
       \<lparr>p_images := [''a.png'', ''b.png'', ''c.png'', ''d.png'', ''e.png'']\<rparr>"

section \<open>Type guards and normalization helpers: proofs\<close>

lemma includes_values: "Array_includes (Object_values e) (JString s) = (s \<in> registry e)"
  by (auto simp: Array_includes_def Object_values_def registry_def)

lemma typeof_string: "(typeof x = ''string'') = (\<exists>s. x = JString s)"
  by (cases x) auto

lemma guard_correctI:
  assumes "\<And>x. g x = (typeof x = ''string'' \<and> Array_includes (Object_values e) x)"
  shows "guard_correct e g"
  unfolding guard_correct_def using assms by (auto simp: includes_values)

text \<open>
  Claim C2. For each of the seven enum attributes, the type guard is true on every value
  of the attribute's registry, false on every string outside it, and false on every
  input that is not a string.
\<close>

theorem type_guards_correct:
  "guard_correct YesNoEnum isYesNo \<and>
   guard_correct ConditionEnum isCondition \<and>
   guard_correct CertificationEnum isCertification \<and>
   guard_correct PaymentTermsEnum isPaymentTerms \<and>
   guard_correct ListingStatusEnum isListingStatus \<and>
   guard_correct PriceUnitEnum isPriceUnit \<and>
   guard_correct QuantityUnitEnum isQuantityUnit"
  by (intro conjI guard_correctI)
     (simp_all add: isYesNo_def isCondition_def isCertification_def isPaymentTerms_def
        isListingStatus_def isPriceUnit_def isQuantityUnit_def)

lemma reg_yesno: "''yes'' \<in> registry YesNoEnum" "''maybe'' \<notin> registry YesNoEnum"
  by (simp_all add: registry_def YesNoEnum_def)

theorem type_guards_correct_witness:
  "isYesNo (JString ''yes'') \<and> \<not> isYesNo (JString ''maybe'') \<and> \<not> isYesNo JNull"
proof -
  have g: "guard_correct YesNoEnum isYesNo"
    using type_guards_correct by blast
  have t: "typeof JNull \<noteq> ''string''" by simp
  from g reg_yesno t show ?thesis
    unfolding guard_correct_def by blast
qed

lemma guard_iff_member:
  assumes "\<And>x. g x = (typeof x = ''string'' \<and> Array_includes (Object_values e) x)"
  shows "g x = member_of e x"
  unfolding member_of_def assms by (auto simp: typeof_string includes_values)

lemma repairsI:
  assumes g: "\<And>x. g x = (typeof x = ''string'' \<and> Array_includes (Object_values e) x)"
    and f: "\<And>x. f x = (if g x then x else JString d)"
    and d: "d \<in> registry e"
  shows "repairs e g d f"
  unfolding repairs_def
proof (intro conjI allI)
  show "d \<in> registry e" by (rule d)
next
  fix x
  show "\<exists>s\<in>registry e. f x = JString s"
  proof (cases "g x")
    case True
    then have "member_of e x" by (simp add: guard_iff_member [OF g])
    with True show ?thesis by (simp add: f member_of_def)
  next
    case False
    with d show ?thesis by (simp add: f)
  qed
next
  fix x show "f x = (if g x then x else JString d)" by (rule f)
qed

lemma repairs_identity:
  assumes g: "\<And>x. g x = (typeof x = ''string'' \<and> Array_includes (Object_values e) x)"
    and r: "repairs e g d f"
  shows "identity_on_members e f"
  unfolding identity_on_members_def
proof (intro conjI ballI allI)
  fix v assume "v \<in> registry e"
  then have "g (JString v)" by (simp add: g includes_values)
  with r show "f (JString v) = JString v" by (simp add: repairs_def)
next
  fix u
  from r obtain s where s: "s \<in> registry e" "f u = JString s"
    unfolding repairs_def by blast
  then have "g (f u)" by (simp add: g includes_values)
  with r show "f (f u) = f u" by (simp add: repairs_def)
qed

lemma repairs_member: "repairs e g d f \<Longrightarrow> member_of e (f x)"
  unfolding repairs_def member_of_def by blast

lemma repairs_PriceUnit: "repairs PriceUnitEnum isPriceUnit ''total'' validatePriceUnit"
  by (rule repairsI)
     (simp_all add: isPriceUnit_def validatePriceUnit_def enum_get_def PriceUnitEnum_def registry_def)

lemma repairs_QuantityUnit: "repairs QuantityUnitEnum isQuantityUnit ''kg'' validateQuantityUnit"
  by (rule repairsI)
     (simp_all add: isQuantityUnit_def validateQuantityUnit_def enum_get_def QuantityUnitEnum_def
        registry_def)

lemma repairs_YesNo: "repairs YesNoEnum isYesNo ''no'' validateYesNo"
  by (rule repairsI)
     (simp_all add: isYesNo_def validateYesNo_def enum_get_def YesNoEnum_def registry_def)

lemma repairs_Condition: "repairs ConditionEnum isCondition ''new'' validateCondition"
  by (rule repairsI)
     (simp_all add: isCondition_def validateCondition_def enum_get_def ConditionEnum_def
        registry_def)

lemma repairs_Certification:
  "repairs CertificationEnum isCertification '''' validateCertification"
  by (rule repairsI)
     (simp_all add: isCertification_def validateCertification_def enum_get_def
        CertificationEnum_def registry_def)

lemma repairs_PaymentTerms: "repairs PaymentTermsEnum isPaymentTerms '''' validatePaymentTerms"
  by (rule repairsI)
     (simp_all add: isPaymentTerms_def validatePaymentTerms_def enum_get_def PaymentTermsEnum_def
        registry_def)

lemma repairs_Status: "repairs ListingStatusEnum isListingStatus ''active'' validateStatus"
  by (rule repairsI)
     (simp_all add: isListingStatus_def validateStatus_def enum_get_def ListingStatusEnum_def
        registry_def)

lemma valid_enums_normalize: "valid_enums (normalize_part toString listing)"
  unfolding valid_enums_def normalize_part_def
  by (simp add: repairs_member [OF repairs_PriceUnit] repairs_member [OF repairs_QuantityUnit]
      repairs_member [OF repairs_YesNo] repairs_member [OF repairs_Condition]
      repairs_member [OF repairs_Certification] repairs_member [OF repairs_PaymentTerms]
      repairs_member [OF repairs_Status])

lemma reset_effect_part_form:
  "p_form (reset_effect_part toString (Some listing) st) = Some (normalize_part toString listing)"
  by (simp add: reset_effect_part_def)

text \<open>
  Claim C1. Each of the seven normalization helpers is total and returns a member of its
  registry: its argument when the type guard accepts the argument, the registry's
  default otherwise. The form values that the reset effect builds from a fetched row
  therefore hold a registry member in every enum field, whatever the row held.
\<close>

theorem normalization_repairs_enums:
  "repairs ListingStatusEnum isListingStatus ''active'' validateStatus \<and>
   repairs ConditionEnum isCondition ''new'' validateCondition \<and>
   repairs CertificationEnum isCertification '''' validateCertification \<and>
   repairs PaymentTermsEnum isPaymentTerms '''' validatePaymentTerms \<and>
   repairs PriceUnitEnum isPriceUnit ''total'' validatePriceUnit \<and>
   repairs QuantityUnitEnum isQuantityUnit ''kg'' validateQuantityUnit \<and>
   repairs YesNoEnum isYesNo ''no'' validateYesNo \<and>
   (\<forall>toString listing st.
      \<exists>d. p_form (reset_effect_part toString (Some listing) st) = Some d \<and> valid_enums d)"
  using repairs_Status repairs_Condition repairs_Certification repairs_PaymentTerms
    repairs_PriceUnit repairs_QuantityUnit repairs_YesNo
  by (simp add: reset_effect_part_form valid_enums_normalize)

theorem normalization_repairs_enums_witness:
  "validateStatus (JString ''SOLD_OUT'') = JString ''active'' \<and>
   validateStatus (JString ''sold'') = JString ''sold'' \<and>
   validateCondition (JNumber NaN) = JString ''new''"
proof -
  have s: "repairs ListingStatusEnum isListingStatus ''active'' validateStatus"
    and c: "repairs ConditionEnum isCondition ''new'' validateCondition"
    using normalization_repairs_enums by blast+
  have 1: "\<not> isListingStatus (JString ''SOLD_OUT'')"
    by (simp add: isListingStatus_def Array_includes_def Object_values_def ListingStatusEnum_def)
  have 2: "isListingStatus (JString ''sold'')"
    by (simp add: isListingStatus_def Array_includes_def Object_values_def ListingStatusEnum_def)
  have 3: "\<not> isCondition (JNumber NaN)"
    by (simp add: isCondition_def)
  from s 1 2 have "validateStatus (JString ''SOLD_OUT'') = JString ''active''"
    "validateStatus (JString ''sold'') = JString ''sold''"
    unfolding repairs_def by simp_all
  moreover from c 3 have "validateCondition (JNumber NaN) = JString ''new''"
    unfolding repairs_def by simp
  ultimately show ?thesis by simp
qed

text \<open>
  Claim C10. Each of the seven helpers is the identity on the members of its registry
  and idempotent on every input; the empty string is a member of the Certification and
  PaymentTerms registries and both helpers keep it.
\<close>

theorem helpers_identity_idempotent:
  "identity_on_members ListingStatusEnum validateStatus \<and>
   identity_on_members ConditionEnum validateCondition \<and>
   identity_on_members CertificationEnum validateCertification \<and>
   identity_on_members PaymentTermsEnum validatePaymentTerms \<and>
   identity_on_members PriceUnitEnum validatePriceUnit \<and>
   identity_on_members QuantityUnitEnum validateQuantityUnit \<and>
   identity_on_members YesNoEnum validateYesNo \<and>
   '''' \<in> registry CertificationEnum \<and> '''' \<in> registry PaymentTermsEnum \<and>
   validateCertification (JString '''') = JString '''' \<and>
   validatePaymentTerms (JString '''') = JString ''''"
proof -
  have e: "'''' \<in> registry CertificationEnum" "'''' \<in> registry PaymentTermsEnum"
    by (simp_all add: registry_def CertificationEnum_def PaymentTermsEnum_def)
  have c: "identity_on_members CertificationEnum validateCertification"
    by (rule repairs_identity [OF _ repairs_Certification]) (simp add: isCertification_def)
  have p: "identity_on_members PaymentTermsEnum validatePaymentTerms"
    by (rule repairs_identity [OF _ repairs_PaymentTerms]) (simp add: isPaymentTerms_def)
  have s: "identity_on_members ListingStatusEnum validateStatus"
    by (rule repairs_identity [OF _ repairs_Status]) (simp add: isListingStatus_def)
  have n: "identity_on_members ConditionEnum validateCondition"
    by (rule repairs_identity [OF _ repairs_Condition]) (simp add: isCondition_def)
  have u: "identity_on_members PriceUnitEnum validatePriceUnit"
    by (rule repairs_identity [OF _ repairs_PriceUnit]) (simp add: isPriceUnit_def)
  have q: "identity_on_members QuantityUnitEnum validateQuantityUnit"
    by (rule repairs_identity [OF _ repairs_QuantityUnit]) (simp add: isQuantityUnit_def)
  have y: "identity_on_members YesNoEnum validateYesNo"
    by (rule repairs_identity [OF _ repairs_YesNo]) (simp add: isYesNo_def)
  from c e have "validateCertification (JString '''') = JString ''''"
    unfolding identity_on_members_def by blast
  moreover from p e have "validatePaymentTerms (JString '''') = JString ''''"
    unfolding identity_on_members_def by blast
  ultimately show ?thesis using e c p s n u q y by simp
qed

theorem helpers_identity_idempotent_witness:
  "validateYesNo (JString ''yes'') = JString ''yes'' \<and>
   validateYesNo (validateYesNo (JObject 3)) = validateYesNo (JObject 3)"
proof -
  have y: "identity_on_members YesNoEnum validateYesNo"
    using helpers_identity_idempotent by blast
  have m: "''yes'' \<in> registry YesNoEnum"
    by (simp add: registry_def YesNoEnum_def)
  from y m show ?thesis unfolding identity_on_members_def by blast
qed

section \<open>Normalizing a fetched row\<close>

lemma num_text_None: "num_text toString None = ''''"
  by (simp add: num_text_def or_empty_def)

lemma validateStatus_SOLD_OUT: "validateStatus (JString ''SOLD_OUT'') = JString ''active''"
  by (simp add: validateStatus_def isListingStatus_def Array_includes_def Object_values_def
      ListingStatusEnum_def enum_get_def)

text \<open>
  What the page with seven enum attributes does with null fields. A null or absent price
  or quantity (both are \<open>None\<close>) becomes the empty string and the status \<open>SOLD_OUT\<close>
  becomes \<open>active\<close>. A null or absent image array leaves the image list as it was: the
  effect sets the list only if the row has an array, and has no other branch. The list
  is therefore empty if the row arrives at the freshly mounted component.
\<close>

lemma reset_effect_part_null_fields:
  "(pr_status l = JString ''SOLD_OUT'' \<and> pr_price l = None \<and> pr_images l = None \<longrightarrow>
      (\<exists>d. p_form (reset_effect_part toString (Some l) (initial_part ident user)) = Some d \<and>
           pf_status d = JString ''active'' \<and> pf_price d = '''') \<and>
      p_images (reset_effect_part toString (Some l) (initial_part ident user)) = []) \<and>
   p_form (reset_effect_part toString (Some l) st) = Some (normalize_part toString l) \<and>
   (pr_price l = None \<longrightarrow> pf_price (normalize_part toString l) = '''') \<and>
   (pr_quantity l = None \<longrightarrow> pf_quantity (normalize_part toString l) = '''') \<and>
   (pr_images l = None \<longrightarrow>
      p_images (reset_effect_part toString (Some l) st) = p_images st \<and>
      p_images (reset_effect_part toString (Some l) (initial_part ident user)) = [])"
  by (simp add: reset_effect_part_def normalize_part_def num_text_None validateStatus_SOLD_OUT
      initial_part_def)

text \<open>
  On src/pages/EditListing.tsx the reset effect fails for every row: it shows the toast of
  its \<open>catch\<close> block and changes nothing else.
\<close>

lemma reset_values_fail: "\<exists>e. reset_values l = Inl e"
  by (simp add: reset_values_def split: option.splits)

lemma reset_effect_fails:
  "reset_effect (Some l) st =
     st\<lparr>e_log := e_log st @ [Toast ''Error'' ''Failed to load listing data into form'']\<rparr>"
  by (simp add: reset_effect_def reset_values_def split: option.splits)

text \<open>
  Claim C8 does not hold of the code. On src/pages/EditListing.tsx the row
  \<open>{status: "SOLD_OUT", price: null, images: null}\<close>, arriving at the freshly mounted page,
  leaves the form at its default values, with price \<open>0\<close> and not the empty string, and
  shows an error toast. On the page with seven enum attributes the same row, arriving
  after a row with two images, leaves the two images in the list, which is not empty.
\<close>

theorem null_row_not_normalized:
  "er_status sold_out_listing = JString ''SOLD_OUT'' \<and> er_price sold_out_listing = None \<and>
   er_images sold_out_listing = None \<and>
   e_form (reset_effect (Some sold_out_listing) (initial (Some ''7'') (Some ''u1''))) =
     defaultValues \<and>
   ef_price defaultValues = ''0'' \<and>
   e_log (reset_effect (Some sold_out_listing) (initial (Some ''7'') (Some ''u1''))) =
     [Toast ''Error'' ''Failed to load listing data into form''] \<and>
   pr_status sold_out_row = JString ''SOLD_OUT'' \<and> pr_price sold_out_row = None \<and>
   pr_images sold_out_row = None \<and>
   p_images (reset_effect_part literal_text (Some sold_out_row)
     (reset_effect_part literal_text (Some two_image_row)
        (initial_part (Some ''7'') (Some ''u1'')))) = [''a.png'', ''b.png'']"
  by (simp add: reset_effect_fails initial_def defaultValues_def sold_out_listing_def
      sold_out_row_def two_image_row_def reset_effect_part_def initial_part_def)

section \<open>Removing an image\<close>

lemma filter_neq_remove1:
  "count_list xs u \<le> 1 \<Longrightarrow> filter (\<lambda>img. img \<noteq> u) xs = remove1 u xs"
proof (induction xs)
  case Nil
  then show ?case by simp
next
  case (Cons a xs)
  show ?case
  proof (cases "a = u")
    case True
    with Cons.prems have "count_list xs u = 0" by simp
    then have "u \<notin> set xs" by (simp add: count_list_0_iff)
    then have "filter (\<lambda>img. img \<noteq> u) xs = xs" by (auto simp: filter_id_conv)
    with True show ?thesis by simp
  next
    case False
    with Cons show ?thesis by simp
  qed
qed

lemma filter_neq_absent: "u \<notin> set xs \<Longrightarrow> filter (\<lambda>img. img \<noteq> u) xs = xs"
  by (auto simp: filter_id_conv)

lemma images_handleImageDelete:
  "ef_images (e_form (handleImageDelete url res st)) =
     (case res of
        Resolved _ \<Rightarrow> filter (\<lambda>img. img \<noteq> url) (ef_images (e_form st))
      | Rejected \<Rightarrow> ef_images (e_form st))"
  by (simp add: handleImageDelete_def Let_def split: outcome.splits)

lemma images_handleImageDelete_part:
  "p_images (handleImageDelete_part url res st) =
     (case res of
        Resolved _ \<Rightarrow> filter (\<lambda>img. img \<noteq> url) (p_images st)
      | Rejected \<Rightarrow> p_images st)"
  by (simp add: handleImageDelete_part_def Let_def split: outcome.splits)

text \<open>
  Claim C6. On both pages, once the stored object is deleted, removing a URL that occurs
  once in the image list deletes that occurrence and keeps the other elements in their
  order (\<open>remove1\<close> deletes the first occurrence); the URL is then no longer in the list;
  and removing a URL that is not in the list leaves the list as it is, however the
  deletion of the object ends.
\<close>

theorem handleImageDelete_removes:
  "(count_list (ef_images (e_form st)) url \<le> 1 \<longrightarrow>
      ef_images (e_form (handleImageDelete url (Resolved ()) st)) =
        remove1 url (ef_images (e_form st))) \<and>
   url \<notin> set (ef_images (e_form (handleImageDelete url (Resolved ()) st))) \<and>
   (url \<notin> set (ef_images (e_form st)) \<longrightarrow>
      ef_images (e_form (handleImageDelete url res st)) = ef_images (e_form st)) \<and>
   (count_list (p_images pst) url \<le> 1 \<longrightarrow>
      p_images (handleImageDelete_part url (Resolved ()) pst) = remove1 url (p_images pst)) \<and>
   url \<notin> set (p_images (handleImageDelete_part url (Resolved ()) pst)) \<and>
   (url \<notin> set (p_images pst) \<longrightarrow>
      p_images (handleImageDelete_part url res pst) = p_images pst)"
  by (simp add: images_handleImageDelete images_handleImageDelete_part filter_neq_remove1
      filter_neq_absent remove1_idem split: outcome.splits)

theorem handleImageDelete_removes_witness:
  "ef_images (e_form (handleImageDelete ''b.png'' (Resolved ()) three_images)) =
     [''a.png'', ''c.png''] \<and>
   ef_images (e_form (handleImageDelete ''z.png'' (Resolved ()) three_images)) =
     [''a.png'', ''b.png'', ''c.png'']"
proof -
  have i: "ef_images (e_form three_images) = [''a.png'', ''b.png'', ''c.png'']"
    by (simp add: three_images_def)
  have c: "count_list (ef_images (e_form three_images)) ''b.png'' \<le> 1"
    and a: "''z.png'' \<notin> set (ef_images (e_form three_images))"
    by (simp_all add: i)
  from handleImageDelete_removes [of three_images "''b.png''"] c
  have "ef_images (e_form (handleImageDelete ''b.png'' (Resolved ()) three_images)) =
          remove1 ''b.png'' (ef_images (e_form three_images))"
    by blast
  moreover
  from handleImageDelete_removes [of three_images "''z.png''" "Resolved ()"] a
  have "ef_images (e_form (handleImageDelete ''z.png'' (Resolved ()) three_images)) =
          ef_images (e_form three_images)"
    by blast
  ultimately show ?thesis by (simp add: i)
qed

text \<open>A URL that occurs more than once loses all its occurrences.\<close>

lemma duplicate_url_loses_every_occurrence:
  "ef_images (e_form (handleImageDelete ''a.png'' (Resolved ())
      (three_images\<lparr>e_form := defaultValues\<lparr>ef_images := [''a.png'', ''b.png'', ''a.png'']\<rparr>\<rparr>))) =
     [''b.png'']"
  by (simp add: images_handleImageDelete)

section \<open>Submitting the form\<close>

lemma parseFloat_abc: "parseFloat ''abc'' = NaN"
  by (simp add: parseFloat_def StrDecimalLiteral_def StrUnsignedDecimalLiteral_def
      StrWhiteSpaceChar_def DecimalDigit_def)

lemma parseFloat_12_5: "parseFloat ''12.5'' = Num ''12.5''"
  by (simp add: parseFloat_def StrDecimalLiteral_def StrUnsignedDecimalLiteral_def
      StrWhiteSpaceChar_def DecimalDigit_def ExponentPart_def)

lemma parseFloat_3: "parseFloat ''3'' = Num ''3''"
  by (simp add: parseFloat_def StrDecimalLiteral_def StrUnsignedDecimalLiteral_def
      StrWhiteSpaceChar_def DecimalDigit_def ExponentPart_def)

lemma parseFloat_more: "parseFloat '' -1.5e3kg'' = Num ''-1.5e3''" "parseFloat ''.5'' = Num ''.5''"
  "parseFloat ''1e'' = Num ''1''" "parseFloat ''.'' = NaN" "parseFloat ''-Infinityx'' = Num ''-Infinity''"
  "parseFloat '''' = NaN" "parseFloat ''5.e+2'' = Num ''5.e+2''" "parseFloat ''e5'' = NaN"
  by (simp_all add: parseFloat_def StrDecimalLiteral_def StrUnsignedDecimalLiteral_def
      StrWhiteSpaceChar_def DecimalDigit_def ExponentPart_def)

lemma parseFloat_NaN_iff:
  "(parseFloat s = NaN) = (StrDecimalLiteral (dropWhile StrWhiteSpaceChar s) = None)"
  by (simp add: parseFloat_def split: option.splits)

lemma log_onSubmit:
  "e_log (onSubmit data (Some l) res st) =
     e_log st @ UpdateListing (er_id l) (build_listingData data) #
       (case res of
          Resolved _ \<Rightarrow> [Toast ''Success'' ''Listing updated successfully'', Navigate ''/listings'']
        | Rejected \<Rightarrow> [Toast ''Error'' ''Failed to update listing''])"
  by (simp add: onSubmit_def onSubmit_begin_def onSubmit_settle_def Let_def split: outcome.splits)

lemma log_onSubmit_None:
  "e_log (onSubmit data None res st) = e_log st @ [Toast ''Error'' ''Listing not found'']"
  by (simp add: onSubmit_def onSubmit_begin_def)

lemma safeParse_Nil: "safeParse email [] obj = []"
  by (simp add: safeParse_def)

lemma safeParse_Cons:
  "safeParse email (kt # shape) obj =
     map (Pair (fst kt)) (issues_of (parse email (snd kt) (obj (fst kt)))) @ safeParse email shape obj"
  by (simp add: safeParse_def field_issues_def)

lemma errors_for_append: "errors_for k (xs @ ys) = errors_for k xs @ errors_for k ys"
  by (simp add: errors_for_def)

lemma errors_for_Pair: "errors_for k (map (Pair k') is) = (if k' = k then is else [])"
  by (induction "is") (auto simp: errors_for_def)

lemma errors_for_absent: "k \<notin> fst ` set shape \<Longrightarrow> errors_for k (safeParse email shape obj) = []"
  by (induction shape) (auto simp: safeParse_Nil safeParse_Cons errors_for_append errors_for_Pair errors_for_def)

lemma errors_for_safeParse:
  "distinct (map fst shape) \<Longrightarrow> map_of shape k = Some t \<Longrightarrow>
   errors_for k (safeParse email shape obj) = issues_of (parse email t (obj k))"
proof (induction shape)
  case Nil
  then show ?case by simp
next
  case (Cons kt shape)
  show ?case
  proof (cases "fst kt = k")
    case True
    with Cons.prems have "snd kt = t" "k \<notin> fst ` set shape"
      by (cases kt; auto)+
    with True show ?thesis
      by (simp add: safeParse_Cons errors_for_append errors_for_Pair errors_for_absent)
  next
    case False
    with Cons.prems have "map_of shape k = Some t" "distinct (map fst shape)"
      by (cases kt; auto)+
    with Cons.IH False show ?thesis
      by (simp add: safeParse_Cons errors_for_append errors_for_Pair)
  qed
qed

lemma distinct_listingSchema: "distinct (map fst listingSchema)"
  by (simp add: listingSchema_def)

lemma parse_required:
  "issues_of (parse email (ZString [Min 1 msg]) v) =
     (case v of
        JString s \<Rightarrow> if s = '''' then [Issue too_small (Some msg)] else []
      | _ \<Rightarrow> [Issue invalid_type None])"
  by (cases v) (auto simp: less_Suc_eq_0_disj)

lemma schema_required_entries:
  "map_of listingSchema ''title'' = Some (ZString [Min 1 ''Title is required''])"
  "map_of listingSchema ''description'' = Some (ZString [Min 1 ''Description is required''])"
  "map_of listingSchema ''location_city'' = Some (ZString [Min 1 ''City is required''])"
  "map_of listingSchema ''category_id'' = Some (ZString [Min 1 ''Category is required''])"
  by (simp_all add: listingSchema_def)

lemma required_field:
  "map_of listingSchema k = Some (ZString [Min 1 msg]) \<Longrightarrow>
   errors_for k (safeParse email listingSchema obj) = required_outcome msg (obj k)"
  by (simp only: errors_for_safeParse [OF distinct_listingSchema] parse_required
      required_outcome_def)

lemma form_object_fields:
  "form_object d ''title'' = JString (ef_title d)"
  "form_object d ''description'' = JString (ef_description d)"
  "form_object d ''price'' = JString (ef_price d)"
  "form_object d ''quantity'' = JString (ef_quantity d)"
  "form_object d ''category_id'' = JString (ef_category_id d)"
  "form_object d ''location_city'' = JString (ef_location_city d)"
  "form_object d ''location_province'' = JString (ef_location_province d)"
  "form_object d ''location_address'' = optional_string (ef_location_address d)"
  "form_object d ''contact_name'' = optional_string (ef_contact_name d)"
  "form_object d ''contact_phone'' = optional_string (ef_contact_phone d)"
  "form_object d ''contact_email'' = optional_string (ef_contact_email d)"
  "form_object d ''status'' = ef_status d"
  by (simp_all add: form_object_def object_of_def)

lemma form_object_absent:
  "form_object d ''price_unit'' = JUndefined"
  "form_object d ''quantity_unit'' = JUndefined"
  "form_object d ''harvest_date'' = JUndefined"
  "form_object d ''organic'' = JUndefined"
  "form_object d ''certification'' = JUndefined"
  "form_object d ''negotiable'' = JUndefined"
  "form_object d ''condition'' = JUndefined"
  "form_object d ''delivery_available'' = JUndefined"
  "form_object d ''min_order_quantity'' = JUndefined"
  "form_object d ''payment_terms'' = JUndefined"
  by (simp_all add: form_object_def object_of_def)

lemma parse_required_nil:
  "(issues_of (parse email (ZString [Min 1 msg]) (JString s)) = []) = (s \<noteq> '''')"
  by (simp add: parse_required)

lemma parse_optional_string:
  "issues_of (parse email (ZOptional (ZString [])) (optional_string x)) = []"
  "issues_of (parse email (ZOptional (ZString [])) (JString s)) = []"
  "issues_of (parse email (ZOptional (ZString [])) JUndefined) = []"
  by (simp_all add: optional_string_def split: option.splits)

lemma parse_defaults_absent:
  "issues_of (parse email (ZDefault (ZNativeEnum PriceUnitEnum) (enum_get PriceUnitEnum ''total'')) JUndefined) = []"
  "issues_of (parse email (ZDefault (ZNativeEnum QuantityUnitEnum) (enum_get QuantityUnitEnum ''kg'')) JUndefined) = []"
  "issues_of (parse email (ZDefault (ZNativeEnum YesNoEnum) (enum_get YesNoEnum ''no'')) JUndefined) = []"
  "issues_of (parse email (ZDefault (ZNativeEnum CertificationEnum) (enum_get CertificationEnum ''none'')) JUndefined) = []"
  "issues_of (parse email (ZDefault (ZNativeEnum ConditionEnum) (enum_get ConditionEnum ''new'')) JUndefined) = []"
  "issues_of (parse email (ZDefault (ZNativeEnum PaymentTermsEnum) (enum_get PaymentTermsEnum ''none'')) JUndefined) = []"
  by (simp_all add: enum_get_def Array_includes_def Object_values_def PriceUnitEnum_def
      QuantityUnitEnum_def YesNoEnum_def CertificationEnum_def ConditionEnum_def
      PaymentTermsEnum_def)

lemma parse_status:
  "(issues_of (parse email
      (ZDefault (ZNativeEnum ListingStatusEnum) (enum_get ListingStatusEnum ''active'')) v) = []) =
   (v = JUndefined \<or> member_of ListingStatusEnum v)"
proof (cases "v = JUndefined")
  case True
  then show ?thesis
    by (simp add: enum_get_def Array_includes_def Object_values_def ListingStatusEnum_def)
next
  case False
  have m: "member_of ListingStatusEnum v = Array_includes (Object_values ListingStatusEnum) v"
    by (auto simp: member_of_def Array_includes_def Object_values_def registry_def)
  have t: "Array_includes (Object_values ListingStatusEnum) v \<Longrightarrow>
           typeof v = ''string'' \<and> v \<noteq> JNumber NaN"
    by (auto simp: Array_includes_def Object_values_def)
  from False t show ?thesis by (auto simp: m)
qed

lemma parse_contact_email:
  "(issues_of (parse email
      (ZOr (ZOptional (ZString [Email msg])) (ZLiteral (JString ''''))) (optional_string x)) = []) =
   (case x of None \<Rightarrow> True | Some s \<Rightarrow> s = '''' \<or> email s)"
  by (cases x) (auto simp: optional_string_def)

lemma accepts_iff:
  "(safeParse email listingSchema (form_object d) = []) =
     (ef_title d \<noteq> '''' \<and> ef_description d \<noteq> '''' \<and> ef_price d \<noteq> '''' \<and>
      ef_category_id d \<noteq> '''' \<and> ef_location_city d \<noteq> '''' \<and> ef_quantity d \<noteq> '''' \<and>
      (case ef_contact_email d of None \<Rightarrow> True | Some s \<Rightarrow> s = '''' \<or> email s) \<and>
      (ef_status d = JUndefined \<or> member_of ListingStatusEnum (ef_status d)))"
  unfolding listingSchema_def safeParse_Cons safeParse_Nil fst_conv snd_conv
    form_object_fields form_object_absent
  by (simp only: append_is_Nil_conv map_is_Nil_conv parse_required_nil parse_optional_string
      parse_defaults_absent parse_status parse_contact_email simp_thms)

lemma draft_abc_fields:
  "ef_title draft_abc = ''Wheat''" "ef_description draft_abc = ''Fresh wheat''"
  "ef_price draft_abc = ''abc''" "ef_quantity draft_abc = ''3''"
  "ef_category_id draft_abc = ''c1''" "ef_location_city draft_abc = ''Lahore''"
  "ef_contact_email draft_abc = Some ''''" "ef_status draft_abc = JString ''active''"
  by (simp_all add: draft_abc_def defaultValues_def enum_get_def ListingStatusEnum_def)

lemma active_member: "member_of ListingStatusEnum (JString ''active'')"
  by (simp add: member_of_def registry_def ListingStatusEnum_def)

text \<open>
  Claim C7, as stated, fails. The schema checks \<open>min(1)\<close> on the string as it is: a title
  of one space is empty after trimming, and the candidate is accepted.
\<close>

theorem whitespace_title_accepted:
  "trim '' '' = '''' \<and> ef_title draft_blank_title = '' '' \<and>
   (\<forall>email. safeParse email listingSchema (form_object draft_blank_title) = [])"
  by (simp add: accepts_iff draft_blank_title_def draft_12_5_def draft_abc_fields active_member
      trim_def StrWhiteSpaceChar_def)

text \<open>
  Claim C7, amended. For every candidate object, the errors the schema reports for title,
  description, city and category are: the field's "... is required" message exactly when
  the value is the empty string, a type issue when the value is not a string, and nothing
  for any other string; no trimming is done. The form values of the edit page are
  accepted exactly when title, description, price, category, city and quantity are not
  empty, the email is absent, empty or matches the library's pattern, and the status is
  absent or a member of its registry.
\<close>

theorem required_fields_checked:
  "errors_for ''title'' (safeParse email listingSchema obj) =
     required_outcome ''Title is required'' (obj ''title'') \<and>
   errors_for ''description'' (safeParse email listingSchema obj) =
     required_outcome ''Description is required'' (obj ''description'') \<and>
   errors_for ''location_city'' (safeParse email listingSchema obj) =
     required_outcome ''City is required'' (obj ''location_city'') \<and>
   errors_for ''category_id'' (safeParse email listingSchema obj) =
     required_outcome ''Category is required'' (obj ''category_id'') \<and>
   (safeParse email listingSchema (form_object d) = []) =
     (ef_title d \<noteq> '''' \<and> ef_description d \<noteq> '''' \<and> ef_price d \<noteq> '''' \<and>
      ef_category_id d \<noteq> '''' \<and> ef_location_city d \<noteq> '''' \<and> ef_quantity d \<noteq> '''' \<and>
      (case ef_contact_email d of None \<Rightarrow> True | Some s \<Rightarrow> s = '''' \<or> email s) \<and>
      (ef_status d = JUndefined \<or> member_of ListingStatusEnum (ef_status d)))"
  by (intro conjI required_field schema_required_entries accepts_iff)

theorem required_fields_checked_witness:
  "(\<forall>email. errors_for ''title'' (safeParse email listingSchema (form_object draft_empty_title)) =
      [Issue too_small (Some ''Title is required'')]) \<and>
   (\<forall>email. safeParse email listingSchema (form_object draft_12_5) = [])"
proof -
  have t: "form_object draft_empty_title ''title'' = JString ''''"
    by (simp add: form_object_fields draft_empty_title_def)
  have a: "safeParse email listingSchema (form_object draft_12_5) = []" for email
    using required_fields_checked [of email "form_object draft_12_5" draft_12_5]
    by (simp add: draft_12_5_def draft_abc_fields active_member)
  have b: "errors_for ''title'' (safeParse email listingSchema (form_object draft_empty_title)) =
             [Issue too_small (Some ''Title is required'')]" for email
    using required_fields_checked [of email "form_object draft_empty_title"]
    by (simp add: t required_outcome_def)
  from a b show ?thesis by simp
qed

text \<open>
  Claim C4, as stated, fails. A draft with price \<open>abc\<close> passes the schema, and \<open>onSubmit\<close>
  then calls the remote update, first thing, with a price that is \<open>NaN\<close>.
\<close>

theorem abc_price_sent:
  "(\<forall>email. safeParse email listingSchema (form_object draft_abc) = []) \<and>
   ef_price draft_abc = ''abc'' \<and>
   (\<forall>res. \<exists>p rest.
      e_log (onSubmit draft_abc (Some wheat_row) res (initial (Some ''7'') (Some ''u1''))) =
        UpdateListing ''7'' p # rest \<and> ld_price p = NaN)"
  by (simp add: accepts_iff draft_abc_fields active_member log_onSubmit initial_def
      build_listingData_def parseFloat_abc wheat_row_def)

text \<open>
  Claim C4, amended. For every draft and every loaded listing, \<open>onSubmit\<close> calls the remote
  update before anything else, with the price and the quantity that \<open>parseFloat\<close> gives
  for the draft's texts, and reports only how the update ended; it makes no check of the
  parsed numbers, and a text that has no decimal literal at its head (after white space)
  is sent as \<open>NaN\<close>. With no listing loaded it makes no remote call.
\<close>

theorem onSubmit_sends_parsed_numbers:
  "e_log (onSubmit data (Some l) res st) =
     e_log st @ UpdateListing (er_id l) (build_listingData data) #
       (case res of
          Resolved _ \<Rightarrow> [Toast ''Success'' ''Listing updated successfully'', Navigate ''/listings'']
        | Rejected \<Rightarrow> [Toast ''Error'' ''Failed to update listing'']) \<and>
   ld_price (build_listingData data) = parseFloat (ef_price data) \<and>
   ld_quantity (build_listingData data) = parseFloat (ef_quantity data) \<and>
   (parseFloat s = NaN) = (StrDecimalLiteral (dropWhile StrWhiteSpaceChar s) = None) \<and>
   e_log (onSubmit data None res st) = e_log st @ [Toast ''Error'' ''Listing not found'']"
  by (simp add: log_onSubmit log_onSubmit_None parseFloat_NaN_iff build_listingData_def)

theorem onSubmit_sends_parsed_numbers_witness:
  "e_log (onSubmit draft_12_5 (Some wheat_row) (Resolved ()) (initial (Some ''7'') (Some ''u1''))) =
     [UpdateListing ''7'' (build_listingData draft_12_5),
      Toast ''Success'' ''Listing updated successfully'', Navigate ''/listings''] \<and>
   ld_price (build_listingData draft_12_5) = Num ''12.5'' \<and>
   ld_quantity (build_listingData draft_12_5) = Num ''3''"
  using onSubmit_sends_parsed_numbers
    [of draft_12_5 wheat_row "Resolved ()" "initial (Some ''7'') (Some ''u1'')"]
  by (simp add: draft_12_5_def draft_abc_fields parseFloat_12_5 parseFloat_3 initial_def
      wheat_row_def)

section \<open>One submission at a time\<close>

text \<open>
  What src/pages/EditListing.tsx does to keep submissions apart: \<open>onSubmit\<close> sets
  \<open>isSubmitting\<close> before the awaited update and clears it when the update has settled,
  and a page rendered while the flag is set has its submit button disabled. \<open>onSubmit\<close>
  does not test the flag: whenever it is entered with a listing loaded, it calls the
  remote update.
\<close>

lemma isSubmitting_flag:
  "e_isSubmitting (onSubmit_begin data (Some l) st) \<and>
   \<not> e_isSubmitting (onSubmit_settle res st) \<and>
   submit_disabled st = e_isSubmitting st"
  by (simp add: onSubmit_begin_def onSubmit_settle_def submit_disabled_def Let_def
      split: outcome.splits)

lemma onSubmit_begin_unguarded:
  "e_inflight (onSubmit_begin data (Some l) st) = e_inflight st + 1 \<and>
   e_log (onSubmit_begin data (Some l) st) =
     e_log st @ [UpdateListing (er_id l) (build_listingData data)]"
  by (simp add: onSubmit_begin_def)

text \<open>
  The page with seven enum attributes keeps no such flag: its submit button is disabled
  only while an image upload runs, and two submissions in a row leave two update calls
  in flight.
\<close>

lemma two_updates_in_flight_part:
  "\<not> submit_disabled_part (onSubmit_part_begin d1 now1 (initial_part (Some ''7'') (Some ''u1''))) \<and>
   p_inflight (onSubmit_part_begin d2 now2
      (onSubmit_part_begin d1 now1 (initial_part (Some ''7'') (Some ''u1'')))) = 2"
  by (simp add: onSubmit_part_begin_def initial_part_def submit_disabled_part_def)

text \<open>
  Claim C9 does not hold of the code. On src/pages/EditListing.tsx the page rendered from
  the initial state has its submit button enabled; two submit events dispatched on that
  page, before it is rendered again, both enter \<open>onSubmit\<close>, and two update calls for the
  same listing are in flight together (the state after the first one would render the
  button disabled). On the page with seven enum attributes the button is still enabled
  in the state after the first submission, and a second one gives two update calls in
  flight.
\<close>

theorem two_submissions_overlap:
  "\<not> submit_disabled (initial (Some ''7'') (Some ''u1'')) \<and>
   submit_disabled (onSubmit_begin draft_12_5 (Some wheat_row) (initial (Some ''7'') (Some ''u1''))) \<and>
   e_inflight
     (onSubmit_begin draft_12_5 (Some wheat_row)
        (onSubmit_begin draft_12_5 (Some wheat_row) (initial (Some ''7'') (Some ''u1'')))) = 2 \<and>
   e_log
     (onSubmit_begin draft_12_5 (Some wheat_row)
        (onSubmit_begin draft_12_5 (Some wheat_row) (initial (Some ''7'') (Some ''u1'')))) =
     [UpdateListing ''7'' (build_listingData draft_12_5),
      UpdateListing ''7'' (build_listingData draft_12_5)] \<and>
   \<not> submit_disabled_part
     (onSubmit_part_begin (normalize_part literal_text sold_out_row) ''2024-05-01T10:00:00.000Z''
        (initial_part (Some ''7'') (Some ''u1''))) \<and>
   p_inflight
     (onSubmit_part_begin (normalize_part literal_text sold_out_row) ''2024-05-01T10:00:01.000Z''
        (onSubmit_part_begin (normalize_part literal_text sold_out_row)
           ''2024-05-01T10:00:00.000Z'' (initial_part (Some ''7'') (Some ''u1'')))) = 2"
  by (simp add: onSubmit_begin_def initial_def submit_disabled_def wheat_row_def
      onSubmit_part_begin_def initial_part_def submit_disabled_part_def)

section \<open>The limit of five images\<close>

text \<open>
  On src/pages/EditListing.tsx a page rendered from a list of five or more has no file
  input; \<open>handleImageUpload\<close> itself never looks at the length of the list, and appends
  to the list as it is when the upload resolves.
\<close>

lemma no_file_input_at_capacity:
  "5 \<le> length (ef_images (e_form st)) \<Longrightarrow> \<not> add_photo_rendered st"
  by (simp add: add_photo_rendered_def)

lemma handleImageUpload_appends:
  "upload_starts f st \<Longrightarrow>
   ef_images (e_form (handleImageUpload f (Resolved (u # us)) st)) = ef_images (e_form st) @ [u]"
  by (auto simp: handleImageUpload_def upload_starts_def handleImageUpload_begin_def
      handleImageUpload_settle_def Let_def split: option.splits)

lemma handleImageUpload_settle_appends:
  "ef_images (e_form (handleImageUpload_settle (Resolved (u # us)) st)) =
     ef_images (e_form st) @ [u]"
  by (simp add: handleImageUpload_settle_def Let_def)

lemma images_four_uploaded:
  "ef_images (e_form four_uploaded) = [''a-url'', ''b-url'', ''c-url'', ''d-url'']"
  by (simp add: four_uploaded_def handleImageUpload_def upload_starts_def
      handleImageUpload_begin_def handleImageUpload_settle_def Let_def initial_def png_def
      missing_def ACCEPTED_IMAGE_TYPES_def MAX_FILE_SIZE_def defaultValues_def)

text \<open>
  Claim C5 does not hold of the code. On src/pages/EditListing.tsx, with four images
  uploaded, the file input is rendered; two files chosen one after the other, before the
  first upload resolves, are both uploaded (the list still has four images when the
  second is chosen) and both URLs are appended: the list ends with six images. On the
  page with seven enum attributes nothing looks at the length: from a list of five, with
  the upload button enabled and a file that the upload component lets through, the file
  is uploaded and its URL appended as the sixth.
\<close>

theorem image_list_exceeds_five:
  "ef_images (e_form four_uploaded) = [''a-url'', ''b-url'', ''c-url'', ''d-url''] \<and>
   add_photo_rendered four_uploaded \<and>
   add_photo_rendered (handleImageUpload_begin (png ''e.png'') four_uploaded) \<and>
   e_uploads
     (handleImageUpload_begin (png ''f.png'')
        (handleImageUpload_begin (png ''e.png'') four_uploaded)) = 2 \<and>
   ef_images (e_form
     (handleImageUpload_settle (Resolved [''f-url''])
        (handleImageUpload_settle (Resolved [''e-url''])
           (handleImageUpload_begin (png ''f.png'')
              (handleImageUpload_begin (png ''e.png'') four_uploaded))))) =
     [''a-url'', ''b-url'', ''c-url'', ''d-url'', ''e-url'', ''f-url''] \<and>
   length (p_images five_part) = 5 \<and> \<not> upload_disabled_part five_part \<and>
   handleFileChange ACCEPTED_IMAGE_TYPES_part MAX_FILE_SIZE (png ''f.png'') \<and>
   p_images (handleImageUpload_part (png ''f.png'') (Resolved [''f-url'']) five_part) =
     [''a.png'', ''b.png'', ''c.png'', ''d.png'', ''e.png'', ''f-url''] \<and>
   p_log (handleImageUpload_part (png ''f.png'') (Resolved [''f-url'']) five_part) =
     [UploadImages [png ''f.png''] ''u1'']"
  by (simp add: four_uploaded_def handleImageUpload_def upload_starts_def
      add_photo_rendered_def handleImageUpload_begin_def handleImageUpload_settle_def png_def
      missing_def ACCEPTED_IMAGE_TYPES_def MAX_FILE_SIZE_def Let_def initial_def
      defaultValues_def five_part_def initial_part_def upload_disabled_part_def
      handleImageUpload_part_def handleImageUpload_part_begin_def
      handleImageUpload_part_settle_def handleFileChange_def ACCEPTED_IMAGE_TYPES_part_def)

end
